theory Spec2Isabelle
  imports Complex_Main "HOL-Library.Multiset"
begin

section \<open>JavaScript values\<close>

text \<open>
  The quiz core of \<^verbatim>\<open>utils.js\<close> works on values produced by \<^verbatim>\<open>JSON.parse\<close> and on the
  in-memory answers object of the controller. A value is one of the JSON shapes, or
  \<^verbatim>\<open>undefined\<close> (what reading an absent property gives). An object is the list of its own
  properties in enumeration order (the order of \<^verbatim>\<open>Object.keys\<close>), whose keys are
  distinct in a parsed object. Numbers are integral: the code modelled only tests a number for zero
  and subtracts millisecond timestamps. Strings are byte lists (the UTF-8 text of the
  JavaScript string).
\<close>

datatype jsval =
    JUndefined
  | JNull
  | JBool bool
  | JNum int
  | JStr string
  | JArr "jsval list"
  | JObj "(string \<times> jsval) list"

datatype error = TypeError

definition bindE :: "error + 'a \<Rightarrow> ('a \<Rightarrow> error + 'b) \<Rightarrow> error + 'b" where
  "bindE m f = (case m of Inl e \<Rightarrow> Inl e | Inr x \<Rightarrow> f x)"

text \<open>Truthiness, as \<^verbatim>\<open>if (v)\<close> and \<^verbatim>\<open>!v\<close> see it.\<close>

fun truthy :: "jsval \<Rightarrow> bool" where
  "truthy JUndefined = False"
| "truthy JNull = False"
| "truthy (JBool b) = b"
| "truthy (JNum n) = (n \<noteq> 0)"
| "truthy (JStr s) = (s \<noteq> [])"
| "truthy (JArr xs) = True"
| "truthy (JObj kvs) = True"

text \<open>\<^verbatim>\<open>typeof v === 'object'\<close>: objects, arrays and \<^verbatim>\<open>null\<close>.\<close>

fun typeofObject :: "jsval \<Rightarrow> bool" where
  "typeofObject JNull = True"
| "typeofObject (JArr xs) = True"
| "typeofObject (JObj kvs) = True"
| "typeofObject v = False"

fun typeofString :: "jsval \<Rightarrow> bool" where
  "typeofString (JStr s) = True"
| "typeofString v = False"

fun isArray :: "jsval \<Rightarrow> bool" where
  "isArray (JArr xs) = True"
| "isArray v = False"

text \<open>
  \<open>propVal v k\<close> is \<^verbatim>\<open>v.k\<close> for a \<open>v\<close> that is neither \<^verbatim>\<open>null\<close> nor \<^verbatim>\<open>undefined\<close>, for
  the property names the code reads (none of them is a built-in of strings, arrays or
  \<^verbatim>\<open>Object.prototype\<close>): the own property of an object, \<^verbatim>\<open>undefined\<close> elsewhere.
  \<open>getProp\<close> adds the TypeError of reading a property of \<^verbatim>\<open>null\<close> or \<^verbatim>\<open>undefined\<close>.
\<close>

fun propVal :: "jsval \<Rightarrow> string \<Rightarrow> jsval" where
  "propVal (JObj kvs) k = (case map_of kvs k of None \<Rightarrow> JUndefined | Some v \<Rightarrow> v)"
| "propVal v k = JUndefined"

fun getProp :: "jsval \<Rightarrow> string \<Rightarrow> error + jsval" where
  "getProp JUndefined k = Inl TypeError"
| "getProp JNull k = Inl TypeError"
| "getProp v k = Inr (propVal v k)"

text \<open>Decimal digits of a natural number, as \<^verbatim>\<open>toString\<close> of an index prints it.\<close>

definition digitChar :: "nat \<Rightarrow> char" where
  "digitChar d = ''0123456789'' ! d"

function showNat :: "nat \<Rightarrow> string" where
  "showNat n = (if n < 10 then [digitChar n] else showNat (n div 10) @ [digitChar (n mod 10)])"
  by pat_completeness auto
termination
  by (relation "measure (\<lambda>n. n)") auto

text \<open>
  \<^verbatim>\<open>Object.keys\<close> and \<^verbatim>\<open>Object.entries\<close> of an object-shaped value: the own keys of an
  object, the indices of an array.
\<close>

fun objectEntries :: "jsval \<Rightarrow> (string \<times> jsval) list" where
  "objectEntries (JObj kvs) = kvs"
| "objectEntries (JArr xs) = zip (map showNat [0..<length xs]) xs"
| "objectEntries v = []"

definition objectKeys :: "jsval \<Rightarrow> string list" where
  "objectKeys v = map fst (objectEntries v)"

definition upperChar :: "char \<Rightarrow> char" where
  "upperChar c =
    (case map_of (zip ''abcdefghijklmnopqrstuvwxyz'' ''ABCDEFGHIJKLMNOPQRSTUVWXYZ'') c of
       None \<Rightarrow> c | Some u \<Rightarrow> u)"

definition lowerChar :: "char \<Rightarrow> char" where
  "lowerChar c =
    (case map_of (zip ''ABCDEFGHIJKLMNOPQRSTUVWXYZ'' ''abcdefghijklmnopqrstuvwxyz'') c of
       None \<Rightarrow> c | Some l \<Rightarrow> l)"

text \<open>
  \<^verbatim>\<open>String.prototype.toUpperCase\<close> and \<^verbatim>\<open>String.prototype.toLowerCase\<close> are functions of
  the JavaScript runtime and follow the Unicode case mappings. They are a parameter of
  the model: every function that changes the case of a string takes the runtime's two
  mappings, and a property stated for every runtime holds for the real one.
  \<open>asciiRuntime\<close> changes the ASCII letters and leaves every other byte as it is; on
  strings of ASCII characters it is what JavaScript computes, and the examples are
  evaluated with it.
\<close>

record runtime =
  toUpperCase :: "string \<Rightarrow> string"
  toLowerCase :: "string \<Rightarrow> string"

definition asciiRuntime :: runtime where
  "asciiRuntime = \<lparr>toUpperCase = map upperChar, toLowerCase = map lowerChar\<rparr>"

text \<open>
  Conversion to a string (template literals, \<^verbatim>\<open>Array.prototype.join\<close>, property keys)
  raises a TypeError on an object with an own property \<^verbatim>\<open>toString\<close>: a parsed value is
  never callable, and \<^verbatim>\<open>Object.prototype.valueOf\<close> returns the object itself. An array
  is converted by joining its elements, \<^verbatim>\<open>null\<close> and \<^verbatim>\<open>undefined\<close> as the empty string.
  \<open>toStringOk v\<close> says that the conversion of \<open>v\<close> returns.
\<close>

fun toStringOk :: "jsval \<Rightarrow> bool" where
  "toStringOk (JObj kvs) = (map_of kvs ''toString'' = None)"
| "toStringOk (JArr xs) = (\<forall>x \<in> set xs. toStringOk x)"
| "toStringOk v = True"

text \<open>
  \<^verbatim>\<open>v.toUpperCase()\<close> and \<^verbatim>\<open>v.toLowerCase()\<close> on any value: a TypeError unless \<open>v\<close> is a
  string (the method is absent, or \<open>v\<close> is \<^verbatim>\<open>null\<close> or \<^verbatim>\<open>undefined\<close>).
\<close>

fun upperOf :: "runtime \<Rightarrow> jsval \<Rightarrow> error + string" where
  "upperOf rt (JStr s) = Inr (toUpperCase rt s)"
| "upperOf rt v = Inl TypeError"

fun lowerOf :: "runtime \<Rightarrow> jsval \<Rightarrow> error + string" where
  "lowerOf rt (JStr s) = Inr (toLowerCase rt s)"
| "lowerOf rt v = Inl TypeError"

text \<open>
  \<^verbatim>\<open>a === b\<close> between values read from different places: primitives by value, two
  objects or arrays never (they are distinct references).
\<close>

fun strictEq :: "jsval \<Rightarrow> jsval \<Rightarrow> bool" where
  "strictEq (JArr xs) b = False"
| "strictEq (JObj kvs) b = False"
| "strictEq a b = (a = b)"

fun arrayItems :: "jsval \<Rightarrow> jsval list" where
  "arrayItems (JArr xs) = xs"
| "arrayItems v = []"

fun mapE :: "('a \<Rightarrow> error + 'b) \<Rightarrow> 'a list \<Rightarrow> error + 'b list" where
  "mapE f [] = Inr []"
| "mapE f (x # xs) = bindE (f x) (\<lambda>y. bindE (mapE f xs) (\<lambda>ys. Inr (y # ys)))"

section \<open>Schema validator\<close>

record validation =
  isValid :: bool
  errors :: "string list"

definition questionLabel :: "nat \<Rightarrow> string" where
  "questionLabel index = ''Domanda '' @ showNat (index + 1) @ '': ''"

text \<open>The letter e with grave accent of the Italian messages, in UTF-8.\<close>

definition eGrave :: string where
  "eGrave = [char_of (195 :: nat), char_of (168 :: nat)]"

definition validateQuestion :: "jsval \<Rightarrow> nat \<Rightarrow> validation" where
  "validateQuestion question index =
    (if \<not> truthy question \<or> \<not> typeofObject question then
       \<lparr>isValid = False,
        errors = [questionLabel index @ ''Non '' @ eGrave @ '' un oggetto valido'']\<rparr>
     else
       let question_text = propVal question ''question_text'';
           question_option = propVal question ''question_option'';
           answer_option = propVal question ''answer_option'';
           errors1 =
             (if \<not> truthy question_text \<or> \<not> typeofString question_text
              then [questionLabel index @ ''Manca question_text o non '' @ eGrave @ '' una stringa'']
              else []);
           errors2 =
             (if \<not> truthy question_option
              then [questionLabel index @ ''Manca question_option'']
              else if isArray question_option
              then (if length (arrayItems question_option) < 2
                    then [questionLabel index @ ''Deve avere almeno 2 opzioni'']
                    else [])
              else if typeofObject question_option
              then (if length (objectKeys question_option) < 2
                    then [questionLabel index @ ''Deve avere almeno 2 opzioni'']
                    else [])
              else [questionLabel index @ ''question_option deve essere un array o un oggetto'']);
           errors3 =
             (if \<not> truthy answer_option \<or> \<not> typeofString answer_option
              then [questionLabel index @ ''Manca answer_option o non '' @ eGrave @ '' una stringa'']
              else []);
           errs = errors1 @ errors2 @ errors3
       in \<lparr>isValid = (length errs = 0), errors = errs\<rparr>)"

section \<open>Question normalizer\<close>

definition isMultiAnswerQuestion :: "jsval \<Rightarrow> error + bool" where
  "isMultiAnswerQuestion question =
    bindE (getProp question ''answer_option_text'') (\<lambda>answer_option_text.
      if \<not> truthy answer_option_text then Inr False
      else if typeofObject answer_option_text
      then Inr (length (objectKeys answer_option_text) > 1)
      else Inr False)"

definition getCorrectAnswers :: "runtime \<Rightarrow> jsval \<Rightarrow> error + string list" where
  "getCorrectAnswers rt question =
    bindE (getProp question ''answer_option_text'') (\<lambda>answer_option_text.
      if truthy answer_option_text \<and> typeofObject answer_option_text
      then Inr (map (toUpperCase rt) (objectKeys answer_option_text))
      else bindE (getProp question ''answer_option'') (\<lambda>answer_option.
        if truthy answer_option
        then bindE (upperOf rt answer_option) (\<lambda>u. Inr [u])
        else Inr []))"

text \<open>
  \<open>getOptionText\<close> returns the text stored for an option key, the empty string when
  there is none. In the legacy object form a key that names a member of
  \<^verbatim>\<open>Object.prototype\<close> reads that member, which is not a parsed value; it is modelled by
  the empty string, and like it converts to a string without an error.
\<close>

definition getOptionText :: "runtime \<Rightarrow> jsval \<Rightarrow> jsval \<Rightarrow> error + jsval" where
  "getOptionText rt question optionKey =
    bindE (getProp question ''question_option'') (\<lambda>question_option.
      if \<not> truthy question_option then Inr (JStr [])
      else if isArray question_option then
        (case find (\<lambda>opt. truthy opt \<and> typeofObject opt \<and> strictEq (propVal opt ''option'') optionKey)
                (arrayItems question_option) of
           None \<Rightarrow> Inr (JStr [])
         | Some opt \<Rightarrow>
             Inr (if truthy (propVal opt ''option_text'') then propVal opt ''option_text'' else JStr []))
      else if typeofObject question_option then
        bindE (lowerOf rt optionKey) (\<lambda>lowerKey.
          Inr (if truthy (propVal question_option lowerKey)
               then propVal question_option lowerKey else JStr []))
      else Inr (JStr []))"

text \<open>
  The Fisher-Yates loop of \<open>shuffleArray\<close>. \<open>rnd i\<close> is the value \<^verbatim>\<open>Math.random()\<close>
  returns in the iteration with counter \<open>i\<close>; the runtime draws it from \<open>[0, 1)\<close>, so
  that \<open>j\<close> lies in \<open>0..i\<close>. The loop runs for \<open>i = length - 1\<close> down to \<open>1\<close>.
\<close>

fun shuffleLoop :: "(nat \<Rightarrow> rat) \<Rightarrow> nat \<Rightarrow> 'a list \<Rightarrow> 'a list" where
  "shuffleLoop rnd 0 shuffled = shuffled"
| "shuffleLoop rnd (Suc i) shuffled =
    (let j = nat \<lfloor>rnd (Suc i) * (of_nat (Suc i) + 1)\<rfloor>
     in shuffleLoop rnd i (shuffled[Suc i := shuffled ! j, j := shuffled ! Suc i]))"

definition shuffleArray :: "(nat \<Rightarrow> rat) \<Rightarrow> 'a list \<Rightarrow> 'a list" where
  "shuffleArray rnd array = shuffleLoop rnd (length array - 1) array"

text \<open>
  Writing a property of an object literal after a spread: an existing key keeps its
  place, a new key goes last.
\<close>

fun setProp :: "(string \<times> jsval) list \<Rightarrow> string \<Rightarrow> jsval \<Rightarrow> (string \<times> jsval) list" where
  "setProp [] k v = [(k, v)]"
| "setProp ((k', v') # kvs) k v = (if k' = k then (k, v) # kvs else (k', v') # setProp kvs k v)"

definition prepareQuestionForDisplay :: "runtime \<Rightarrow> (nat \<Rightarrow> rat) \<Rightarrow> jsval \<Rightarrow> error + jsval" where
  "prepareQuestionForDisplay rt rnd question =
    bindE (getProp question ''question_option'') (\<lambda>question_option.
      if \<not> truthy question_option then Inr question
      else bindE (isMultiAnswerQuestion question) (\<lambda>isMultiAnswer.
        if isArray question_option then
          (let shuffledOptions = shuffleArray rnd (arrayItems question_option)
           in Inr (JObj (setProp (setProp (setProp (objectEntries question)
                ''question_option'' (JArr shuffledOptions))
                ''original_options'' question_option)
                ''isMultiAnswer'' (JBool isMultiAnswer))))
        else if typeofObject question_option then
          (let optionEntries = objectEntries question_option;
               optionArray = map (\<lambda>(key, text).
                  JObj [(''option'', JStr (toUpperCase rt key)), (''option_text'', text)]) optionEntries;
               shuffledOptions = shuffleArray rnd optionArray
           in Inr (JObj (setProp (setProp (setProp (objectEntries question)
                ''question_option'' (JArr shuffledOptions))
                ''original_options'' question_option)
                ''isMultiAnswer'' (JBool isMultiAnswer))))
        else Inr (JObj (setProp (objectEntries question) ''isMultiAnswer'' (JBool isMultiAnswer)))))"

text \<open>
  The canonical option keys of a question, in option order: the \<^verbatim>\<open>option\<close> field of each
  entry of the array form, the upper-cased keys of the legacy object form.
\<close>

definition optionKeys :: "runtime \<Rightarrow> jsval \<Rightarrow> jsval list" where
  "optionKeys rt question =
    (case propVal question ''question_option'' of
       JArr opts \<Rightarrow> map (\<lambda>opt. propVal opt ''option'') opts
     | JObj kvs \<Rightarrow> map (\<lambda>k. JStr (toUpperCase rt k)) (map fst kvs)
     | _ \<Rightarrow> [])"

section \<open>Grading engine\<close>

text \<open>
  The callback of \<open>gradeQuiz\<close> is modelled with every place where it can raise. Of the
  per-question result the fields \<open>isCorrect\<close> and \<open>isMultiAnswer\<close> are kept; the display
  strings, the explanations and the learning-objective counters are not computed, only
  the errors that computing them raises.
\<close>

record question_result =
  isCorrect :: jsval
  isMultiAnswer :: bool

text \<open>
  \<open>percentage\<close> is \<^verbatim>\<open>Math.round((correctCount / questions.length) * 100)\<close> in double
  arithmetic: not a number for \<open>0 / 0\<close>, and kept symbolic otherwise.
\<close>

datatype percent = NotANumber | RoundedRatio nat nat

record grading_result =
  score :: nat
  total_q :: nat
  percentage :: percent
  passed :: bool
  results :: "question_result list"

definition userSelections :: "jsval \<Rightarrow> jsval list" where
  "userSelections userAnswer =
    (if isArray userAnswer then arrayItems userAnswer
     else if truthy userAnswer then [userAnswer] else [])"

text \<open>The decision \<open>isCorrect\<close> of one question.\<close>

definition judgeAnswer :: "runtime \<Rightarrow> jsval \<Rightarrow> jsval \<Rightarrow> string list \<Rightarrow> bool \<Rightarrow> error + jsval" where
  "judgeAnswer rt question userAnswer correctAnswers isMulti =
    (if isMulti then
       bindE (mapE (upperOf rt) (userSelections userAnswer)) (\<lambda>userSelectionsUpper.
         let correctAnswersUpper = map (toUpperCase rt) correctAnswers
         in Inr (JBool (length correctAnswersUpper = length userSelectionsUpper \<and>
                        list_all (\<lambda>ans. ans \<in> set userSelectionsUpper) correctAnswersUpper)))
     else
       bindE (getProp question ''answer_option'') (\<lambda>correctAnswer.
         if \<not> truthy userAnswer then Inr userAnswer
         else bindE (lowerOf rt userAnswer) (\<lambda>u.
              bindE (lowerOf rt correctAnswer) (\<lambda>c. Inr (JBool (u = c))))))"

text \<open>
  The learning objective is used as a property key of the counters, which converts it
  to a string.
\<close>

definition trackObjective :: "jsval \<Rightarrow> error + unit" where
  "trackObjective question =
    bindE (getProp question ''learning_objective'') (\<lambda>learningObjective.
      if truthy learningObjective \<and> \<not> toStringOk learningObjective
      then Inl TypeError else Inr ())"

text \<open>
  The explanation: a multi-answer question prints each explanation in a template
  literal; a single-answer question with an object-shaped explanation lower-cases
  \<^verbatim>\<open>answer_option\<close>. Collecting \<^verbatim>\<open>no_answer_option_text\<close> raises nothing.
\<close>

definition explanationStep :: "runtime \<Rightarrow> jsval \<Rightarrow> bool \<Rightarrow> error + unit" where
  "explanationStep rt question isMulti =
    bindE (getProp question ''answer_option_text'') (\<lambda>answer_option_text.
      if truthy answer_option_text then
        (if typeofString answer_option_text then Inr ()
         else if typeofObject answer_option_text then
           (if isMulti then
              (if list_all (\<lambda>(key, text). toStringOk text) (objectEntries answer_option_text)
               then Inr () else Inl TypeError)
            else
              bindE (getProp question ''answer_option'') (\<lambda>correctAnswer.
                bindE (lowerOf rt correctAnswer) (\<lambda>lowerCorrectAnswer. Inr ())))
         else Inr ())
      else Inr ())"

definition joinOk :: "jsval list \<Rightarrow> bool" where
  "joinOk xs = list_all toStringOk xs"

text \<open>The display strings of the correct answer and of the user's answer.\<close>

definition displayStep :: "runtime \<Rightarrow> jsval \<Rightarrow> jsval \<Rightarrow> string list \<Rightarrow> bool \<Rightarrow> error + unit" where
  "displayStep rt question userAnswer correctAnswers isMulti =
    (if isMulti then
       bindE (mapE (\<lambda>ans. getOptionText rt question (JStr ans)) correctAnswers) (\<lambda>correctTexts.
         if \<not> joinOk correctTexts then Inl TypeError
         else if isArray userAnswer \<and> length (arrayItems userAnswer) > 0 then
           (if \<not> joinOk (arrayItems userAnswer) then Inl TypeError
            else bindE (mapE (getOptionText rt question) (arrayItems userAnswer)) (\<lambda>userTexts.
              if joinOk userTexts then Inr () else Inl TypeError))
         else if truthy userAnswer then
           bindE (getOptionText rt question userAnswer) (\<lambda>userText. Inr ())
         else Inr ())
     else
       bindE (getProp question ''answer_option'') (\<lambda>correctAnswer.
         bindE (getOptionText rt question correctAnswer) (\<lambda>correctText.
           if truthy userAnswer
           then bindE (getOptionText rt question userAnswer) (\<lambda>userText. Inr ())
           else Inr ())))"

definition gradeQuestion :: "runtime \<Rightarrow> jsval \<Rightarrow> jsval \<Rightarrow> error + question_result" where
  "gradeQuestion rt question userAnswer =
    bindE (getCorrectAnswers rt question) (\<lambda>correctAnswers.
    bindE (isMultiAnswerQuestion question) (\<lambda>isMulti.
    bindE (judgeAnswer rt question userAnswer correctAnswers isMulti) (\<lambda>correct.
    bindE (trackObjective question) (\<lambda>u1.
    bindE (explanationStep rt question isMulti) (\<lambda>u2.
    bindE (displayStep rt question userAnswer correctAnswers isMulti) (\<lambda>u3.
    Inr \<lparr>isCorrect = correct, isMultiAnswer = isMulti\<rparr>))))))"

text \<open>
  The answers object (never \<^verbatim>\<open>null\<close>: the controller starts from \<^verbatim>\<open>{}\<close>) maps a question
  index, whose decimal string is the property name, to the submitted answer; an absent
  entry reads as \<^verbatim>\<open>undefined\<close>.
\<close>

definition answerAt :: "(nat \<rightharpoonup> jsval) \<Rightarrow> nat \<Rightarrow> jsval" where
  "answerAt userAnswers index = (case userAnswers index of None \<Rightarrow> JUndefined | Some v \<Rightarrow> v)"

text \<open>
  The \<^verbatim>\<open>forEach\<close> of \<open>gradeQuiz\<close>, with its two accumulators; an error in the callback
  leaves the whole function.
\<close>

fun gradeLoop :: "runtime \<Rightarrow> (nat \<rightharpoonup> jsval) \<Rightarrow> jsval list \<Rightarrow> nat \<Rightarrow> nat \<times> question_result list
    \<Rightarrow> error + (nat \<times> question_result list)" where
  "gradeLoop rt userAnswers [] index acc = Inr acc"
| "gradeLoop rt userAnswers (question # rest) index (correctCount, res) =
    bindE (gradeQuestion rt question (answerAt userAnswers index)) (\<lambda>r.
      gradeLoop rt userAnswers rest (Suc index)
        (if truthy (isCorrect r) then correctCount + 1 else correctCount, res @ [r]))"

definition gradeQuiz :: "runtime \<Rightarrow> jsval list \<Rightarrow> (nat \<rightharpoonup> jsval) \<Rightarrow> error + grading_result" where
  "gradeQuiz rt questions userAnswers =
    bindE (gradeLoop rt userAnswers questions 0 (0, [])) (\<lambda>(correctCount, res).
      Inr \<lparr>score = correctCount,
           total_q = length questions,
           percentage = (if length questions = 0 then NotANumber
                         else RoundedRatio correctCount (length questions)),
           passed = (correctCount \<ge> 26),
           results = res\<rparr>)"

section \<open>Session state store\<close>

text \<open>
  \<^verbatim>\<open>localStorage\<close> maps keys to strings; reading and removing an item are taken to
  succeed. \<^verbatim>\<open>JSON.parse\<close> is a parameter (\<open>None\<close> when it throws), and so is the
  conversion to a number of a timestamp that is a string, an array or an object.
  \<open>now\<close> is \<^verbatim>\<open>Date.now()\<close>, in milliseconds.
\<close>

type_synonym storage = "string \<rightharpoonup> string"

datatype jsnumber = NumNaN | Num int | PosInfinity | NegInfinity

fun toNumber :: "(jsval \<Rightarrow> error + jsnumber) \<Rightarrow> jsval \<Rightarrow> error + jsnumber" where
  "toNumber conv JUndefined = Inr NumNaN"
| "toNumber conv JNull = Inr (Num 0)"
| "toNumber conv (JBool b) = Inr (Num (if b then 1 else 0))"
| "toNumber conv (JNum n) = Inr (Num n)"
| "toNumber conv v = conv v"

text \<open>\<open>ageBelow now t maxAge\<close> is \<^verbatim>\<open>now - t < maxAge\<close>.\<close>

fun ageBelow :: "int \<Rightarrow> jsnumber \<Rightarrow> int \<Rightarrow> bool" where
  "ageBelow now NumNaN maxAge = False"
| "ageBelow now (Num t) maxAge = (now - t < maxAge)"
| "ageBelow now PosInfinity maxAge = True"
| "ageBelow now NegInfinity maxAge = False"

definition maxAge :: int where
  "maxAge = 24 * 60 * 60 * 1000"

text \<open>
  \<open>loadQuizState\<close> returns the state (or \<^verbatim>\<open>null\<close>) and the store it leaves. Every error
  inside its \<^verbatim>\<open>try\<close> block ends in \<^verbatim>\<open>return null\<close> with the store as it was.
\<close>

definition loadQuizState ::
    "(string \<Rightarrow> jsval option) \<Rightarrow> (jsval \<Rightarrow> error + jsnumber) \<Rightarrow> int \<Rightarrow> storage \<Rightarrow> string
      \<Rightarrow> jsval \<times> storage" where
  "loadQuizState parse conv now store quizName =
    (let key = ''quiz_'' @ quizName in
     case store key of
       None \<Rightarrow> (JNull, store)
     | Some saved \<Rightarrow>
         if saved = [] then (JNull, store)
         else (case parse saved of
            None \<Rightarrow> (JNull, store)
          | Some state \<Rightarrow>
              (case bindE (getProp state ''timestamp'') (toNumber conv) of
                 Inl e \<Rightarrow> (JNull, store)
               | Inr t \<Rightarrow>
                   if ageBelow now t maxAge then (state, store)
                   else (JNull, store(key := None)))))"

section \<open>Quiz session controller\<close>

text \<open>
  The fields of the controller that answering and navigating touch. Saving the state
  after an answer writes to the store only.
\<close>

record quiz_app =
  currentQuestions :: "jsval list"
  currentQuestionIndex :: nat
  userAnswers :: "nat \<rightharpoonup> jsval"

text \<open>The attempt as \<open>initializeNewQuiz\<close> leaves it, for the prepared questions \<open>qs\<close>.\<close>

definition newAttempt :: "jsval list \<Rightarrow> quiz_app" where
  "newAttempt qs = \<lparr>currentQuestions = qs, currentQuestionIndex = 0, userAnswers = Map.empty\<rparr>"

definition selectOption :: "string \<Rightarrow> quiz_app \<Rightarrow> quiz_app" where
  "selectOption optionValue app =
    app\<lparr>userAnswers := (userAnswers app)(currentQuestionIndex app \<mapsto> JStr optionValue)\<rparr>"

definition selectMultiOption :: "string \<Rightarrow> bool \<Rightarrow> quiz_app \<Rightarrow> quiz_app" where
  "selectMultiOption optionValue isChecked app =
    (let questionIndex = currentQuestionIndex app;
         ua0 = userAnswers app;
         ua1 = (if \<not> truthy (answerAt ua0 questionIndex) then ua0(questionIndex \<mapsto> JArr []) else ua0);
         ua2 = (if \<not> isArray (answerAt ua1 questionIndex) then ua1(questionIndex \<mapsto> JArr []) else ua1);
         selected = arrayItems (answerAt ua2 questionIndex);
         ua3 = (if isChecked then
                  (if JStr optionValue \<notin> set selected
                   then ua2(questionIndex \<mapsto> JArr (selected @ [JStr optionValue]))
                   else ua2)
                else ua2(questionIndex \<mapsto> JArr (filter (\<lambda>value. value \<noteq> JStr optionValue) selected)))
     in app\<lparr>userAnswers := ua3\<rparr>)"

definition previousQuestion :: "quiz_app \<Rightarrow> quiz_app" where
  "previousQuestion app =
    (if currentQuestionIndex app > 0
     then app\<lparr>currentQuestionIndex := currentQuestionIndex app - 1\<rparr> else app)"

definition nextQuestion :: "quiz_app \<Rightarrow> quiz_app" where
  "nextQuestion app =
    (if int (currentQuestionIndex app) < int (length (currentQuestions app)) - 1
     then app\<lparr>currentQuestionIndex := currentQuestionIndex app + 1\<rparr> else app)"

datatype action =
    SelectOption string
  | SelectMultiOption string bool
  | PreviousQuestion
  | NextQuestion

fun perform :: "action \<Rightarrow> quiz_app \<Rightarrow> quiz_app" where
  "perform (SelectOption v) app = selectOption v app"
| "perform (SelectMultiOption v c) app = selectMultiOption v c app"
| "perform PreviousQuestion app = previousQuestion app"
| "perform NextQuestion app = nextQuestion app"

fun run :: "action list \<Rightarrow> quiz_app \<Rightarrow> quiz_app" where
  "run [] app = app"
| "run (a # as) app = run as (perform a app)"

section \<open>Notions used to state the properties\<close>

text \<open>
  The per-question checks of the validator. \<open>specAccepts\<close> follows the specification's
  words: an array of options counts only if each entry is option-like (an object with
  a key and a text). \<open>optionsCheck\<close> is the check as the validator makes it.
\<close>

definition nonEmptyString :: "jsval \<Rightarrow> bool" where
  "nonEmptyString v = (case v of JStr s \<Rightarrow> s \<noteq> [] | _ \<Rightarrow> False)"

definition optionLike :: "jsval \<Rightarrow> bool" where
  "optionLike opt = (case opt of
      JObj kvs \<Rightarrow> map_of kvs ''option'' \<noteq> None \<and> map_of kvs ''option_text'' \<noteq> None
    | _ \<Rightarrow> False)"

definition isObjectValue :: "jsval \<Rightarrow> bool" where
  "isObjectValue q = (truthy q \<and> typeofObject q)"

definition textCheck :: "jsval \<Rightarrow> bool" where
  "textCheck q = nonEmptyString (propVal q ''question_text'')"

definition answerCheck :: "jsval \<Rightarrow> bool" where
  "answerCheck q = nonEmptyString (propVal q ''answer_option'')"

definition optionsCheck :: "jsval \<Rightarrow> bool" where
  "optionsCheck q = (case propVal q ''question_option'' of
      JArr opts \<Rightarrow> length opts \<ge> 2
    | JObj kvs \<Rightarrow> length kvs \<ge> 2
    | _ \<Rightarrow> False)"

definition specOptionsCheck :: "jsval \<Rightarrow> bool" where
  "specOptionsCheck q = (case propVal q ''question_option'' of
      JArr opts \<Rightarrow> length opts \<ge> 2 \<and> list_all optionLike opts
    | JObj kvs \<Rightarrow> length kvs \<ge> 2
    | _ \<Rightarrow> False)"

definition specAccepts :: "jsval \<Rightarrow> bool" where
  "specAccepts q = (isObjectValue q \<and> textCheck q \<and> specOptionsCheck q \<and> answerCheck q)"

definition failedChecks :: "jsval \<Rightarrow> nat" where
  "failedChecks q = (if textCheck q then 0 else 1) + (if optionsCheck q then 0 else 1)
     + (if answerCheck q then 0 else 1)"

text \<open>A diagnostic mentions the 1-based question number: it starts with the label.\<close>

definition hasLabel :: "nat \<Rightarrow> string \<Rightarrow> bool" where
  "hasLabel index e = (take (length (questionLabel index)) e = questionLabel index)"

text \<open>
  The keys a question names as correct, before case normalisation, and the comparison
  of a key with the option keys of a question, ignoring case.
\<close>

definition answerKeySources :: "jsval \<Rightarrow> string list" where
  "answerKeySources q =
    (let answer_option_text = propVal q ''answer_option_text'' in
     if truthy answer_option_text \<and> typeofObject answer_option_text
     then objectKeys answer_option_text
     else (case propVal q ''answer_option'' of JStr s \<Rightarrow> [s] | _ \<Rightarrow> []))"

text \<open>Upper-casing twice is the same as upper-casing once.\<close>

definition idempotentUpper :: "runtime \<Rightarrow> bool" where
  "idempotentUpper rt = (\<forall>s. toUpperCase rt (toUpperCase rt s) = toUpperCase rt s)"

definition matchesOptionKey :: "runtime \<Rightarrow> jsval \<Rightarrow> string \<Rightarrow> bool" where
  "matchesOptionKey rt q k =
    list_ex (\<lambda>opt. case opt of JStr s \<Rightarrow> toUpperCase rt s = toUpperCase rt k | _ \<Rightarrow> False)
      (optionKeys rt q)"

text \<open>
  A value is plain when no object inside it has an own property \<^verbatim>\<open>toString\<close>; every
  conversion of a plain value to a string returns.
\<close>

fun plainValue :: "jsval \<Rightarrow> bool" where
  "plainValue (JObj kvs) =
     (map_of kvs ''toString'' = None \<and> (\<forall>kv \<in> set kvs. plainValue (snd kv)))"
| "plainValue (JArr xs) = (\<forall>x \<in> set xs. plainValue x)"
| "plainValue v = True"

text \<open>
  An unanswered question: no entry, the empty string, or the empty array that
  deselecting every option of a multi-answer question leaves. The controller grades
  prepared questions, whose options are in the array form.
\<close>

definition unanswered :: "jsval \<Rightarrow> jsval \<Rightarrow> bool" where
  "unanswered q ua =
    (ua = JUndefined \<or> ua = JStr [] \<or>
     (ua = JArr [] \<and> isMultiAnswerQuestion q = Inr True \<and>
      isArray (propVal q ''question_option'')))"

text \<open>
  The values the controller stores in the answers: a string, or an array of strings
  without repetition.
\<close>

definition answerShape :: "jsval \<Rightarrow> bool" where
  "answerShape v = (case v of
      JStr s \<Rightarrow> True
    | JArr xs \<Rightarrow> distinct xs \<and> list_all typeofString xs
    | _ \<Rightarrow> False)"

definition attemptInvariant :: "jsval list \<Rightarrow> quiz_app \<Rightarrow> bool" where
  "attemptInvariant qs app =
    (currentQuestions app = qs \<and> currentQuestionIndex app < length qs \<and>
     (\<forall>i v. userAnswers app i = Some v \<longrightarrow> i < length qs \<and> answerShape v))"


section \<open>Example inputs\<close>

definition optionEntry :: "string \<Rightarrow> string \<Rightarrow> jsval" where
  "optionEntry k t = JObj [(''option'', JStr k), (''option_text'', JStr t)]"

text \<open>A single-answer question in the array form whose answer is option A.\<close>

definition singleQuestion :: jsval where
  "singleQuestion = JObj [(''question_text'', JStr ''Q''),
     (''question_option'', JArr [optionEntry ''A'' ''x'', optionEntry ''B'' ''y'']),
     (''answer_option'', JStr ''A'')]"

text \<open>The same question with an answer key that no option carries.\<close>

definition strayAnswerQuestion :: jsval where
  "strayAnswerQuestion = JObj [(''question_text'', JStr ''Q''),
     (''question_option'', JArr [optionEntry ''A'' ''x'', optionEntry ''B'' ''y'']),
     (''answer_option'', JStr ''Z'')]"

text \<open>A question whose option array holds two numbers.\<close>

definition numberOptionsQuestion :: jsval where
  "numberOptionsQuestion = JObj [(''question_text'', JStr ''Q''),
     (''question_option'', JArr [JNum 1, JNum 2]),
     (''answer_option'', JStr ''A'')]"

text \<open>A legacy question whose explanation keys differ only in case.\<close>

definition caseClashQuestion :: jsval where
  "caseClashQuestion = JObj [(''question_text'', JStr ''Q''),
     (''question_option'', JObj [(''a'', JStr ''x''), (''b'', JStr ''y'')]),
     (''answer_option'', JStr ''a''),
     (''answer_option_text'', JObj [(''a'', JStr ''lower''), (''A'', JStr ''upper'')])]"

text \<open>
  A question with options A to D whose explanation keys a, A and c give the correct
  keys A, A, C: two distinct correct keys, one of them listed twice.
\<close>

definition repeatedKeyQuestion :: jsval where
  "repeatedKeyQuestion = JObj [(''question_text'', JStr ''Q''),
     (''question_option'', JArr [optionEntry ''A'' ''w'', optionEntry ''B'' ''x'',
                                 optionEntry ''C'' ''y'', optionEntry ''D'' ''z'']),
     (''answer_option'', JStr ''A''),
     (''answer_option_text'',
        JObj [(''a'', JStr ''why a''), (''A'', JStr ''why A''), (''c'', JStr ''why c'')])]"

text \<open>A multi-answer question with the correct keys A and C.\<close>

definition multiQuestion :: jsval where
  "multiQuestion = JObj [(''question_text'', JStr ''Q''),
     (''question_option'', JArr [optionEntry ''A'' ''w'', optionEntry ''B'' ''x'',
                                 optionEntry ''C'' ''y'', optionEntry ''D'' ''z'']),
     (''answer_option'', JStr ''A''),
     (''answer_option_text'', JObj [(''a'', JStr ''why a''), (''c'', JStr ''why c'')])]"

text \<open>A legacy question with three options.\<close>

definition legacyQuestion :: jsval where
  "legacyQuestion = JObj [(''question_text'', JStr ''Q''),
     (''question_option'', JObj [(''a'', JStr ''x''), (''b'', JStr ''y''), (''c'', JStr ''z'')]),
     (''answer_option'', JStr ''b'')]"

text \<open>The same question as \<open>prepareQuestionForDisplay\<close> returns it when every draw is 1/3.\<close>

definition preparedLegacyQuestion :: jsval where
  "preparedLegacyQuestion = JObj [(''question_text'', JStr ''Q''),
     (''question_option'', JArr [optionEntry ''C'' ''z'', optionEntry ''A'' ''x'',
                                 optionEntry ''B'' ''y'']),
     (''answer_option'', JStr ''b''),
     (''original_options'', JObj [(''a'', JStr ''x''), (''b'', JStr ''y''), (''c'', JStr ''z'')]),
     (''isMultiAnswer'', JBool False)]"

text \<open>A snapshot saved at time \<open>t\<close>, and a store that holds it for the quiz A.\<close>

definition savedAt :: "int \<Rightarrow> jsval" where
  "savedAt t = JObj [(''currentQuestionIndex'', JNum 3), (''timeRemaining'', JNum 1200),
     (''timestamp'', JNum t)]"

definition storeA :: storage where
  "storeA = [''quiz_A'' \<mapsto> ''snapshot'']"

definition parseA :: "string \<Rightarrow> jsval option" where
  "parseA text = (if text = ''snapshot'' then Some (savedAt 1000) else None)"

definition dayMs :: int where
  "dayMs = 24 * 60 * 60 * 1000"

section \<open>Basic facts\<close>

lemma bindE_Inr [simp]: "bindE (Inr x) f = f x"
  by (simp add: bindE_def)

lemma bindE_Inl [simp]: "bindE (Inl e) f = Inl e"
  by (simp add: bindE_def)

lemma bindE_eq_Inr: "bindE m f = Inr y \<longleftrightarrow> (\<exists>x. m = Inr x \<and> f x = Inr y)"
  by (cases m) auto

lemma upperChar_idem [simp]: "upperChar (upperChar c) = upperChar c"
  by (simp add: upperChar_def)

lemma idempotentUpper_ascii: "idempotentUpper asciiRuntime"
  by (simp add: idempotentUpper_def asciiRuntime_def)

lemma getCorrectAnswers_getProp:
  "getCorrectAnswers rt q = Inr ks \<Longrightarrow> getProp q k = Inr (propVal q k)"
  unfolding getCorrectAnswers_def by (cases q) auto

lemma nonEmptyString_iff: "nonEmptyString v \<longleftrightarrow> truthy v \<and> typeofString v"
  by (cases v) (auto simp: nonEmptyString_def)

lemma optionsCheck_cases:
  "optionsCheck q \<longleftrightarrow> truthy (propVal q ''question_option'') \<and>
     (if isArray (propVal q ''question_option'')
      then 2 \<le> length (arrayItems (propVal q ''question_option''))
      else typeofObject (propVal q ''question_option'') \<and>
           2 \<le> length (objectKeys (propVal q ''question_option'')))"
  by (cases "propVal q ''question_option''") (auto simp: optionsCheck_def objectKeys_def)

lemma matchesOptionKey_upper:
  "idempotentUpper rt \<Longrightarrow> matchesOptionKey rt q (toUpperCase rt k) = matchesOptionKey rt q k"
  by (simp add: matchesOptionKey_def idempotentUpper_def cong: jsval.case_cong)

lemmas eval_defs = getCorrectAnswers_def isMultiAnswerQuestion_def judgeAnswer_def
  trackObjective_def explanationStep_def displayStep_def getOptionText_def userSelections_def
  joinOk_def objectKeys_def asciiRuntime_def upperChar_def lowerChar_def
  optionEntry_def

section \<open>Schema validator: acceptance and diagnostics\<close>

lemma validateQuestion_isValid:
  "isValid (validateQuestion q i) = (isObjectValue q \<and> textCheck q \<and> optionsCheck q \<and> answerCheck q)"
  unfolding validateQuestion_def textCheck_def answerCheck_def nonEmptyString_iff
    optionsCheck_cases isObjectValue_def
  by (auto simp: Let_def)

lemma validateQuestion_errors_empty:
  "isValid (validateQuestion q i) = (errors (validateQuestion q i) = [])"
  unfolding validateQuestion_def by (simp add: Let_def)

lemma validateQuestion_labels: "list_all (hasLabel i) (errors (validateQuestion q i))"
  unfolding validateQuestion_def hasLabel_def by (simp add: Let_def)

lemma validateQuestion_distinct: "distinct (errors (validateQuestion q i))"
  unfolding validateQuestion_def by (simp add: Let_def)

lemma validateQuestion_count:
  "length (errors (validateQuestion q i)) = (if isObjectValue q then failedChecks q else 1)"
  unfolding validateQuestion_def failedChecks_def textCheck_def answerCheck_def
    nonEmptyString_iff optionsCheck_cases isObjectValue_def
  by (simp add: Let_def)

text \<open>
  C7, as stated, fails: a question whose option array holds two numbers, not option-like
  entries, is accepted with an empty error list.
\<close>

theorem validateQuestion_accepts_counterexample:
  "validateQuestion numberOptionsQuestion 0 = \<lparr>isValid = True, errors = []\<rparr> \<and>
   \<not> specAccepts numberOptionsQuestion"
  by (simp add: validateQuestion_def numberOptionsQuestion_def specAccepts_def
      specOptionsCheck_def optionLike_def)

text \<open>
  C7, amended: \<open>validateQuestion\<close> accepts a raw value (\<open>isValid\<close> true, which is the same
  as an empty error list) if and only if the value is an object, its \<^verbatim>\<open>question_text\<close> is
  a non-empty string, its \<^verbatim>\<open>question_option\<close> is an array of at least 2 entries (of any
  shape) or an object with at least 2 keys, and its \<^verbatim>\<open>answer_option\<close> is a non-empty
  string. Every diagnostic starts with the 1-based question number, the diagnostics are
  pairwise distinct, and an object gets one diagnostic per failing check (a value that
  is not an object gets exactly one).
\<close>

theorem validateQuestion_accepts:
  "isValid (validateQuestion q i) =
     (isObjectValue q \<and> textCheck q \<and> optionsCheck q \<and> answerCheck q) \<and>
   isValid (validateQuestion q i) = (errors (validateQuestion q i) = []) \<and>
   list_all (hasLabel i) (errors (validateQuestion q i)) \<and>
   distinct (errors (validateQuestion q i)) \<and>
   length (errors (validateQuestion q i)) = (if isObjectValue q then failedChecks q else 1)"
  using validateQuestion_isValid validateQuestion_errors_empty validateQuestion_labels
    validateQuestion_distinct validateQuestion_count
  by blast

theorem validateQuestion_accepts_witness:
  "errors (validateQuestion (JObj [(''question_text'', JStr ''Q'')]) 11) =
     [''Domanda 12: Manca question_option'',
      ''Domanda 12: Manca answer_option o non '' @ eGrave @ '' una stringa''] \<and>
   \<not> isValid (validateQuestion (JObj [(''question_text'', JStr ''Q'')]) 11) \<and>
   failedChecks (JObj [(''question_text'', JStr ''Q'')]) = 2 \<and>
   isValid (validateQuestion numberOptionsQuestion 0) \<and>
   failedChecks numberOptionsQuestion = 0"
  using validateQuestion_accepts [of "JObj [(''question_text'', JStr ''Q'')]" 11]
    validateQuestion_accepts [of numberOptionsQuestion 0]
  by (simp add: validateQuestion_def questionLabel_def digitChar_def numberOptionsQuestion_def
      failedChecks_def textCheck_def optionsCheck_def answerCheck_def nonEmptyString_def)

lemma valid_object:
  assumes "isValid (validateQuestion q i)"
  shows "\<exists>kvs. q = JObj kvs"
proof -
  from assms have "textCheck q" by (simp add: validateQuestion_isValid)
  then show ?thesis by (cases q) (auto simp: textCheck_def nonEmptyString_def)
qed

lemma valid_answer:
  assumes "isValid (validateQuestion q i)"
  shows "\<exists>s. propVal q ''answer_option'' = JStr s \<and> s \<noteq> []"
proof -
  from assms have "answerCheck q" by (simp add: validateQuestion_isValid)
  then show ?thesis
    by (cases "propVal q ''answer_option''") (auto simp: answerCheck_def nonEmptyString_def)
qed

lemma getCorrectAnswers_valid:
  assumes "isValid (validateQuestion q i)"
  shows "getCorrectAnswers rt q = Inr (map (toUpperCase rt) (answerKeySources q))"
proof -
  from valid_object [OF assms] have gp: "\<And>k. getProp q k = Inr (propVal q k)"
    by auto
  from valid_answer [OF assms] obtain s where s: "propVal q ''answer_option'' = JStr s" "s \<noteq> []"
    by blast
  show ?thesis
    unfolding getCorrectAnswers_def answerKeySources_def by (simp add: gp s Let_def)
qed

lemma isMultiAnswerQuestion_length:
  assumes "getCorrectAnswers rt q = Inr ks"
  shows "isMultiAnswerQuestion q = Inr (1 < length ks)"
proof -
  note gp = getCorrectAnswers_getProp [OF assms]
  let ?t = "propVal q ''answer_option_text''"
  show ?thesis
  proof (cases "truthy ?t \<and> typeofObject ?t")
    case True
    with assms show ?thesis
      by (auto simp: getCorrectAnswers_def isMultiAnswerQuestion_def gp)
  next
    case False
    with assms have "length ks \<le> 1"
      by (cases "propVal q ''answer_option''")
        (auto simp: getCorrectAnswers_def gp split: if_splits)
    with False show ?thesis
      by (auto simp: isMultiAnswerQuestion_def gp)
  qed
qed

section \<open>Correct keys and option keys\<close>

text \<open>
  C1, as stated, fails: the validator accepts a question whose \<^verbatim>\<open>answer_option\<close> is Z
  while its options are A and B, and \<open>getCorrectAnswers\<close> returns Z.
\<close>

theorem validateQuestion_correct_keys_counterexample:
  "isValid (validateQuestion strayAnswerQuestion 0) \<and>
   getCorrectAnswers asciiRuntime strayAnswerQuestion = Inr [''Z''] \<and>
   \<not> matchesOptionKey asciiRuntime strayAnswerQuestion ''Z''"
  by (simp add: validateQuestion_def strayAnswerQuestion_def getCorrectAnswers_def
      matchesOptionKey_def optionKeys_def asciiRuntime_def upperChar_def optionEntry_def)

text \<open>
  C1, amended: for every question accepted by \<open>validateQuestion\<close>, \<open>getCorrectAnswers\<close>
  returns without an error the upper-cased keys the question names as correct (the
  keys of an object-shaped \<^verbatim>\<open>answer_option_text\<close>, otherwise \<^verbatim>\<open>answer_option\<close> alone), and
  the returned keys all occur, ignoring case, among the option keys exactly when the
  keys named in the data do (upper-casing twice being the same as upper-casing once).
  The validator does not compare the two.
\<close>

theorem validateQuestion_correct_keys:
  assumes "isValid (validateQuestion q i)"
  shows "getCorrectAnswers rt q = Inr (map (toUpperCase rt) (answerKeySources q)) \<and>
    (idempotentUpper rt \<longrightarrow>
      list_all (matchesOptionKey rt q) (map (toUpperCase rt) (answerKeySources q))
        = list_all (matchesOptionKey rt q) (answerKeySources q))"
proof -
  have "list_all (matchesOptionKey rt q) (map (toUpperCase rt) (answerKeySources q))
     = list_all (matchesOptionKey rt q) (answerKeySources q)" if "idempotentUpper rt"
    using that by (simp add: list_all_iff matchesOptionKey_upper)
  with getCorrectAnswers_valid [OF assms] show ?thesis by simp
qed

theorem validateQuestion_correct_keys_witness:
  "isValid (validateQuestion singleQuestion 0) \<and>
   idempotentUpper asciiRuntime \<and>
   getCorrectAnswers asciiRuntime singleQuestion = Inr [''A''] \<and>
   list_all (matchesOptionKey asciiRuntime singleQuestion) [''A''] \<and>
   list_all (matchesOptionKey asciiRuntime singleQuestion) (answerKeySources singleQuestion)"
proof -
  have v: "isValid (validateQuestion singleQuestion 0)"
    by (simp add: validateQuestion_def singleQuestion_def)
  have m: "list_all (matchesOptionKey asciiRuntime singleQuestion) (answerKeySources singleQuestion)"
    by (simp add: answerKeySources_def matchesOptionKey_def optionKeys_def singleQuestion_def
        optionEntry_def asciiRuntime_def upperChar_def)
  have k: "map (toUpperCase asciiRuntime) (answerKeySources singleQuestion) = [''A'']"
    by (simp add: answerKeySources_def singleQuestion_def asciiRuntime_def upperChar_def)
  from validateQuestion_correct_keys [OF v, of asciiRuntime] idempotentUpper_ascii v m k
  show ?thesis by simp
qed

section \<open>Multi-answer classification\<close>

text \<open>
  C5, as stated, fails: two explanation keys that differ only in case make the question
  multi-answer, yet the set of its correct keys has one element.
\<close>

theorem isMultiAnswerQuestion_counterexample:
  "isMultiAnswerQuestion caseClashQuestion = Inr True \<and>
   getCorrectAnswers asciiRuntime caseClashQuestion = Inr [''A'', ''A''] \<and>
   card (set [''A'', ''A'']) = 1"
  by (simp add: isMultiAnswerQuestion_def getCorrectAnswers_def caseClashQuestion_def
      objectKeys_def asciiRuntime_def upperChar_def)

text \<open>
  C5, amended: whenever \<open>getCorrectAnswers\<close> returns, \<open>isMultiAnswerQuestion\<close> is true if
  and only if the returned list has more than one entry, counted with repetitions; when
  the returned keys are pairwise distinct this is the same as the set of correct keys
  having more than one element.
\<close>

theorem isMultiAnswerQuestion_iff:
  assumes "getCorrectAnswers rt q = Inr ks"
  shows "isMultiAnswerQuestion q = Inr (1 < length ks) \<and>
    (distinct ks \<longrightarrow> isMultiAnswerQuestion q = Inr (1 < card (set ks)))"
  using isMultiAnswerQuestion_length [OF assms] by (simp add: distinct_card)

theorem isMultiAnswerQuestion_iff_witness:
  "getCorrectAnswers asciiRuntime multiQuestion = Inr [''A'', ''C''] \<and>
   distinct [''A'', ''C''] \<and>
   isMultiAnswerQuestion multiQuestion = Inr True \<and>
   getCorrectAnswers asciiRuntime singleQuestion = Inr [''A''] \<and>
   isMultiAnswerQuestion singleQuestion = Inr False"
proof -
  have m: "getCorrectAnswers asciiRuntime multiQuestion = Inr [''A'', ''C'']"
    by (simp add: getCorrectAnswers_def multiQuestion_def objectKeys_def asciiRuntime_def
        upperChar_def)
  have s: "getCorrectAnswers asciiRuntime singleQuestion = Inr [''A'']"
    by (simp add: getCorrectAnswers_def singleQuestion_def asciiRuntime_def upperChar_def)
  from isMultiAnswerQuestion_iff [OF m] isMultiAnswerQuestion_iff [OF s] m s
  show ?thesis by simp
qed

section \<open>Grading: score and pass threshold\<close>

lemma gradeLoop_counts:
  "gradeLoop rt ua qs i (c, res) = Inr (c', res') \<Longrightarrow>
   c = length (filter (\<lambda>x. truthy (isCorrect x)) res) \<Longrightarrow>
   c' = length (filter (\<lambda>x. truthy (isCorrect x)) res') \<and>
   length res' = length res + length qs"
proof (induction qs arbitrary: i c res)
  case Nil
  then show ?case by auto
next
  case (Cons q qs)
  from Cons.prems(1) obtain r where r: "gradeQuestion rt q (answerAt ua i) = Inr r"
    and rest: "gradeLoop rt ua qs (Suc i)
      (if truthy (isCorrect r) then c + 1 else c, res @ [r]) = Inr (c', res')"
    by (auto simp: bindE_eq_Inr)
  have "(if truthy (isCorrect r) then c + 1 else c) =
      length (filter (\<lambda>x. truthy (isCorrect x)) (res @ [r]))"
    using Cons.prems(2) by simp
  from Cons.IH [OF rest this] show ?case by simp
qed

lemma gradeLoop_replicate:
  "gradeQuestion rt q a = Inr r \<Longrightarrow> (\<And>k. k < n \<Longrightarrow> answerAt ua (i + k) = a) \<Longrightarrow>
   gradeLoop rt ua (replicate n q) i (c, res) =
     Inr (c + (if truthy (isCorrect r) then n else 0), res @ replicate n r)"
proof (induction n arbitrary: i c res)
  case 0
  then show ?case by simp
next
  case (Suc n)
  from Suc.prems(2) [of 0] have here: "answerAt ua i = a" by simp
  have later: "\<And>k. k < n \<Longrightarrow> answerAt ua (Suc i + k) = a"
    using Suc.prems(2) by (metis Suc_less_eq add_Suc_shift)
  show ?case
    by (simp add: here Suc.prems(1) Suc.IH [OF Suc.prems(1) later] replicate_append_same)
qed

lemma gradeQuestion_single_right:
  "gradeQuestion asciiRuntime singleQuestion (JStr ''a'') = Inr \<lparr>isCorrect = JBool True, isMultiAnswer = False\<rparr>"
  by (simp add: gradeQuestion_def eval_defs singleQuestion_def)

lemma gradeQuestion_single_unanswered:
  "gradeQuestion asciiRuntime singleQuestion JUndefined =
     Inr \<lparr>isCorrect = JUndefined, isMultiAnswer = False\<rparr>"
  by (simp add: gradeQuestion_def eval_defs singleQuestion_def)

text \<open>
  The threshold and the counters of \<open>gradeQuiz\<close>: whenever it returns, \<open>passed\<close> says
  that the score is at least 26, the score is the number of questions marked correct
  and the total is the number of questions.
\<close>

lemma gradeQuiz_threshold:
  assumes "gradeQuiz rt questions answers = Inr r"
  shows "passed r = (score r \<ge> 26) \<and>
    score r = length (filter (\<lambda>x. truthy (isCorrect x)) (results r)) \<and>
    total_q r = length questions \<and> length (results r) = length questions"
  using assms unfolding gradeQuiz_def
  by (auto simp: bindE_eq_Inr dest!: gradeLoop_counts)

text \<open>
  C10: grading an empty question sequence returns score 0, total 0 and \<open>passed\<close> false
  without an error, and a percentage that is not a number.
\<close>

theorem gradeQuiz_empty:
  "gradeQuiz rt [] answers =
     Inr \<lparr>score = 0, total_q = 0, percentage = NotANumber, passed = False, results = []\<rparr>"
  by (simp add: gradeQuiz_def)

section \<open>Normalizer: shuffling keeps the option keys\<close>

lemma shuffle_index_bound:
  assumes "0 \<le> r" "r < (1::rat)"
  shows "nat \<lfloor>r * (of_nat i + 1)\<rfloor> \<le> i"
proof -
  have "r * (of_nat i + 1) < 1 * (of_nat i + 1)"
    using assms(2) by (intro mult_strict_right_mono) (simp_all add: add_pos_nonneg)
  then have "r * (of_nat i + 1) < of_int (int i + 1)"
    by simp
  then have "\<lfloor>r * (of_nat i + 1)\<rfloor> < int i + 1"
    by (simp only: floor_less_iff)
  then show ?thesis by linarith
qed

lemma shuffleLoop_mset:
  "(\<And>k. 0 \<le> rnd k \<and> rnd k < 1) \<Longrightarrow> i < length xs \<Longrightarrow> mset (shuffleLoop rnd i xs) = mset xs"
proof (induction i arbitrary: xs)
  case 0
  then show ?case by simp
next
  case (Suc i)
  let ?j = "nat \<lfloor>rnd (Suc i) * (of_nat (Suc i) + 1)\<rfloor>"
  have j: "?j \<le> Suc i" using Suc.prems(1) [of "Suc i"] by (intro shuffle_index_bound) auto
  with Suc.prems(2) have jl: "?j < length xs" by linarith
  let ?ys = "xs[Suc i := xs ! ?j, ?j := xs ! Suc i]"
  have m: "mset ?ys = mset xs" using mset_swap [OF jl Suc.prems(2)] by simp
  have "i < length ?ys" using Suc.prems(2) by simp
  from Suc.IH [OF Suc.prems(1) this] m show ?case by (simp add: Let_def)
qed

lemma shuffleArray_mset:
  "(\<And>k. 0 \<le> rnd k \<and> rnd k < 1) \<Longrightarrow> mset (shuffleArray rnd xs) = mset xs"
  by (cases xs) (simp_all add: shuffleArray_def shuffleLoop_mset)

lemma map_of_setProp: "map_of (setProp kvs k v) k' = (if k' = k then Some v else map_of kvs k')"
  by (induction kvs) auto

lemma propVal_setProp:
  "propVal (JObj (setProp kvs k v)) k' = (if k' = k then v else propVal (JObj kvs) k')"
  by (simp add: map_of_setProp)

lemma optionKeys_prepared:
  "optionKeys rt (JObj (setProp (setProp (setProp kvs ''question_option'' (JArr xs))
      ''original_options'' orig) ''isMultiAnswer'' m)) = map (\<lambda>opt. propVal opt ''option'') xs"
  unfolding optionKeys_def propVal_setProp by simp

lemma optionKeys_flagged:
  "optionKeys rt (JObj (setProp kvs ''isMultiAnswer'' m)) = optionKeys rt (JObj kvs)"
  unfolding optionKeys_def propVal_setProp by simp

lemma legacy_option_keys:
  "map (\<lambda>opt. propVal opt ''option'')
     (map (\<lambda>(key, text). JObj [(''option'', JStr (toUpperCase rt key)), (''option_text'', text)]) okvs)
   = map (\<lambda>k. JStr (toUpperCase rt k)) (map fst okvs)"
  by (induction okvs) auto

text \<open>
  C9: for every question (a value other than \<^verbatim>\<open>null\<close> and \<^verbatim>\<open>undefined\<close>) and every outcome
  of the random draws, each in \<open>[0, 1)\<close>, \<open>prepareQuestionForDisplay\<close> returns a prepared
  question whose canonical option keys are, as a multiset, those of the original
  question, in the array form and in the legacy object form (keys upper-cased).
\<close>

theorem prepareQuestionForDisplay_keys:
  assumes rnd: "\<And>k. 0 \<le> rnd k \<and> rnd k < 1" and q: "q \<noteq> JNull" "q \<noteq> JUndefined"
  shows "\<exists>p. prepareQuestionForDisplay rt rnd q = Inr p \<and> mset (optionKeys rt p) = mset (optionKeys rt q)"
proof -
  from q have gp: "\<And>k. getProp q k = Inr (propVal q k)" by (cases q) auto
  have "\<exists>b. isMultiAnswerQuestion q = Inr b"
    by (auto simp: isMultiAnswerQuestion_def gp)
  then obtain b where b: "isMultiAnswerQuestion q = Inr b" by blast
  let ?o = "propVal q ''question_option''"
  note sh = shuffleArray_mset [OF rnd]
  show ?thesis
  proof (cases "\<exists>kvs. q = JObj kvs")
    case False
    then have "?o = JUndefined" by (cases q) auto
    then show ?thesis by (simp add: prepareQuestionForDisplay_def gp)
  next
    case True
    then obtain kvs where kvs: "q = JObj kvs" by blast
    have oe: "objectEntries q = kvs" by (simp add: kvs)
    show ?thesis
    proof (cases "truthy ?o")
      case False
      then show ?thesis by (simp add: prepareQuestionForDisplay_def gp)
    next
      case t: True
      show ?thesis
      proof (cases ?o)
        case (JArr opts)
        have p: "prepareQuestionForDisplay rt rnd q = Inr (JObj (setProp (setProp (setProp kvs
            ''question_option'' (JArr (shuffleArray rnd opts)))
            ''original_options'' (JArr opts)) ''isMultiAnswer'' (JBool b)))"
          unfolding prepareQuestionForDisplay_def gp b oe JArr by (simp add: Let_def)
        have k: "optionKeys rt q = map (\<lambda>opt. propVal opt ''option'') opts"
          unfolding optionKeys_def JArr by simp
        show ?thesis unfolding p k by (simp add: sh optionKeys_prepared)
      next
        case (JObj okvs)
        let ?f = "\<lambda>(key, text). JObj [(''option'', JStr (toUpperCase rt key)), (''option_text'', text)]"
        have p: "prepareQuestionForDisplay rt rnd q = Inr (JObj (setProp (setProp (setProp kvs
            ''question_option'' (JArr (shuffleArray rnd (map ?f okvs))))
            ''original_options'' (JObj okvs)) ''isMultiAnswer'' (JBool b)))"
          unfolding prepareQuestionForDisplay_def gp b oe JObj by (simp add: Let_def)
        have k: "optionKeys rt q = map (\<lambda>k. JStr (toUpperCase rt k)) (map fst okvs)"
          unfolding optionKeys_def JObj by simp
        let ?g = "\<lambda>opt. propVal opt ''option''"
        let ?p = "JObj (setProp (setProp (setProp kvs
            ''question_option'' (JArr (shuffleArray rnd (map ?f okvs))))
            ''original_options'' (JObj okvs)) ''isMultiAnswer'' (JBool b))"
        have "mset (optionKeys rt ?p) = image_mset ?g (mset (shuffleArray rnd (map ?f okvs)))"
          by (simp only: optionKeys_prepared mset_map)
        also have "\<dots> = image_mset ?g (mset (map ?f okvs))"
          by (simp only: sh)
        also have "\<dots> = mset (map ?g (map ?f okvs))"
          by (simp only: mset_map)
        also have "\<dots> = mset (optionKeys rt q)"
          by (simp only: legacy_option_keys k)
        finally show ?thesis using p by blast
      next
        case JUndefined
        with t show ?thesis by simp
      next
        case JNull
        with t show ?thesis by simp
      next
        case (JBool x)
        have p: "prepareQuestionForDisplay rt rnd q = Inr (JObj (setProp kvs ''isMultiAnswer'' (JBool b)))"
          unfolding prepareQuestionForDisplay_def gp b oe JBool using t JBool by simp
        show ?thesis using p by (simp add: kvs optionKeys_flagged)
      next
        case (JNum x)
        have p: "prepareQuestionForDisplay rt rnd q = Inr (JObj (setProp kvs ''isMultiAnswer'' (JBool b)))"
          unfolding prepareQuestionForDisplay_def gp b oe JNum using t JNum by simp
        show ?thesis using p by (simp add: kvs optionKeys_flagged)
      next
        case (JStr x)
        have p: "prepareQuestionForDisplay rt rnd q = Inr (JObj (setProp kvs ''isMultiAnswer'' (JBool b)))"
          unfolding prepareQuestionForDisplay_def gp b oe JStr using t JStr by simp
        show ?thesis using p by (simp add: kvs optionKeys_flagged)
      qed
    qed
  qed
qed

theorem prepareQuestionForDisplay_keys_witness:
  "prepareQuestionForDisplay asciiRuntime (\<lambda>i. 1 / 3) legacyQuestion = Inr preparedLegacyQuestion \<and>
   optionKeys asciiRuntime preparedLegacyQuestion = [JStr ''C'', JStr ''A'', JStr ''B''] \<and>
   optionKeys asciiRuntime legacyQuestion = [JStr ''A'', JStr ''B'', JStr ''C''] \<and>
   mset (optionKeys asciiRuntime preparedLegacyQuestion) = mset (optionKeys asciiRuntime legacyQuestion)"
proof -
  have p: "prepareQuestionForDisplay asciiRuntime (\<lambda>i. 1 / 3) legacyQuestion = Inr preparedLegacyQuestion"
    by (simp add: prepareQuestionForDisplay_def legacyQuestion_def preparedLegacyQuestion_def
        isMultiAnswerQuestion_def shuffleArray_def asciiRuntime_def upperChar_def optionEntry_def)
  have k1: "optionKeys asciiRuntime preparedLegacyQuestion = [JStr ''C'', JStr ''A'', JStr ''B'']"
    by (simp add: optionKeys_def preparedLegacyQuestion_def optionEntry_def)
  have k2: "optionKeys asciiRuntime legacyQuestion = [JStr ''A'', JStr ''B'', JStr ''C'']"
    by (simp add: optionKeys_def legacyQuestion_def asciiRuntime_def upperChar_def)
  have n: "legacyQuestion \<noteq> JNull" "legacyQuestion \<noteq> JUndefined"
    by (simp_all add: legacyQuestion_def)
  have r: "\<And>k::nat. 0 \<le> (1 / 3 :: rat) \<and> (1 / 3 :: rat) < 1" by simp
  from prepareQuestionForDisplay_keys [where rnd = "\<lambda>i. 1 / 3" and q = legacyQuestion
      and rt = asciiRuntime, OF r n] p k1 k2
  show ?thesis by simp
qed

section \<open>Grading: multi-answer questions\<close>

lemma mapE_upperOf_strings: "mapE (upperOf rt) (map JStr sel) = Inr (map (toUpperCase rt) sel)"
  by (induction sel) simp_all

lemma distinct_cover_same_members:
  assumes "distinct ks"
  shows "(length ks = length us \<and> list_all (\<lambda>a. a \<in> set us) ks) =
     (length us = length ks \<and> set us = set ks)"
proof
  assume a: "length ks = length us \<and> list_all (\<lambda>a. a \<in> set us) ks"
  then have sub: "set ks \<subseteq> set us" by (auto simp: list_all_iff)
  have "card (set us) \<le> length us" by (rule card_length)
  also have "\<dots> = card (set ks)" using a assms by (simp add: distinct_card)
  finally have "set ks = set us" using sub by (simp add: card_seteq)
  with a show "length us = length ks \<and> set us = set ks" by simp
next
  assume "length us = length ks \<and> set us = set ks"
  then show "length ks = length us \<and> list_all (\<lambda>a. a \<in> set us) ks"
    by (simp add: list_all_iff)
qed

text \<open>
  Where the upper-cased correct keys are pairwise distinct the comparison is the
  intended one: a submitted array of strings is marked correct if and only if, upper-
  cased, it has as many entries as there are correct keys and the same members.
\<close>

lemma gradeQuestion_multi_distinct:
  assumes multi: "isMultiAnswerQuestion q = Inr True" and ks: "getCorrectAnswers rt q = Inr ks"
    and d: "distinct (map (toUpperCase rt) ks)"
    and g: "gradeQuestion rt q (JArr (map JStr sel)) = Inr r"
  shows "isCorrect r = JBool (length sel = length ks \<and>
     set (map (toUpperCase rt) sel) = set (map (toUpperCase rt) ks))"
proof -
  from g obtain c where c: "judgeAnswer rt q (JArr (map JStr sel)) ks True = Inr c"
    and r: "isCorrect r = c"
    by (auto simp: gradeQuestion_def ks multi bindE_eq_Inr)
  from c have "c = JBool (length (map (toUpperCase rt) ks) = length (map (toUpperCase rt) sel) \<and>
      list_all (\<lambda>ans. ans \<in> set (map (toUpperCase rt) sel)) (map (toUpperCase rt) ks))"
    by (simp add: judgeAnswer_def userSelections_def mapE_upperOf_strings Let_def)
  also have "\<dots> = JBool (length (map (toUpperCase rt) sel) = length (map (toUpperCase rt) ks) \<and>
      set (map (toUpperCase rt) sel) = set (map (toUpperCase rt) ks))"
    by (simp only: distinct_cover_same_members [OF d])
  finally show ?thesis using r by simp
qed

text \<open>
  The grading of \<open>repeatedKeyQuestion\<close>, whose explanation keys a, A and c give the
  correct keys A, A, C.
\<close>

lemma repeatedKeyQuestion_keys:
  "getCorrectAnswers asciiRuntime repeatedKeyQuestion = Inr [''A'', ''A'', ''C'']"
  by (simp add: eval_defs repeatedKeyQuestion_def)

lemma repeatedKeyQuestion_exact:
  "gradeQuestion asciiRuntime repeatedKeyQuestion (JArr [JStr ''A'', JStr ''C'']) =
     Inr \<lparr>isCorrect = JBool False, isMultiAnswer = True\<rparr>"
  by (simp add: gradeQuestion_def eval_defs repeatedKeyQuestion_def)

lemma repeatedKeyQuestion_extra:
  "gradeQuestion asciiRuntime repeatedKeyQuestion (JArr [JStr ''A'', JStr ''C'', JStr ''B'']) =
     Inr \<lparr>isCorrect = JBool True, isMultiAnswer = True\<rparr>"
  by (simp add: gradeQuestion_def eval_defs repeatedKeyQuestion_def)

text \<open>
  C3: the code does not do what the claim (and its own comments, "all correct answers
  and no incorrect ones", "same elements, same count") says when two explanation keys
  differ only in case. The correct keys are then A, A and C; the selection A, C, which
  is exactly the set of correct keys, is marked incorrect, and the selection A, C, B,
  whose key B is not a correct key, is marked correct.
\<close>

theorem gradeQuestion_multi_repeated_keys:
  "getCorrectAnswers asciiRuntime repeatedKeyQuestion = Inr [''A'', ''A'', ''C''] \<and>
   gradeQuestion asciiRuntime repeatedKeyQuestion (JArr [JStr ''A'', JStr ''C'']) =
     Inr \<lparr>isCorrect = JBool False, isMultiAnswer = True\<rparr> \<and>
   set [''A'', ''C''] = set [''A'', ''A'', ''C''] \<and>
   gradeQuestion asciiRuntime repeatedKeyQuestion (JArr [JStr ''A'', JStr ''C'', JStr ''B'']) =
     Inr \<lparr>isCorrect = JBool True, isMultiAnswer = True\<rparr> \<and>
   ''B'' \<notin> set [''A'', ''A'', ''C'']"
  by (simp add: repeatedKeyQuestion_keys repeatedKeyQuestion_exact repeatedKeyQuestion_extra)

text \<open>
  C2: the threshold is as the claim says (\<open>gradeQuiz_threshold\<close>), but the score is the
  number of questions the grading marks correct, and the defect shown for C3 makes it
  count questions that are not correctly answered: 26 questions with the correct keys
  A, A, C, each answered A, C, B, give the score 26 and \<open>passed\<close> true although no
  answer is the set of correct keys.
\<close>

theorem gradeQuiz_score_repeated_keys:
  "gradeQuiz asciiRuntime (replicate 26 repeatedKeyQuestion)
       (\<lambda>i. Some (JArr [JStr ''A'', JStr ''C'', JStr ''B''])) =
     Inr \<lparr>score = 26, total_q = 26, percentage = RoundedRatio 26 26, passed = True,
          results = replicate 26 \<lparr>isCorrect = JBool True, isMultiAnswer = True\<rparr>\<rparr> \<and>
   getCorrectAnswers asciiRuntime repeatedKeyQuestion = Inr [''A'', ''A'', ''C''] \<and>
   ''B'' \<notin> set [''A'', ''A'', ''C'']"
proof -
  let ?ans = "\<lambda>i::nat. Some (JArr [JStr ''A'', JStr ''C'', JStr ''B''])"
  have "gradeLoop asciiRuntime ?ans (replicate 26 repeatedKeyQuestion) 0 (0, []) =
      Inr (26, replicate 26 \<lparr>isCorrect = JBool True, isMultiAnswer = True\<rparr>)"
    using gradeLoop_replicate [OF repeatedKeyQuestion_extra, where n = 26 and ua = ?ans
        and i = 0 and c = 0 and res = "[]"]
    by (simp add: answerAt_def)
  then have "gradeQuiz asciiRuntime (replicate 26 repeatedKeyQuestion) ?ans =
     Inr \<lparr>score = 26, total_q = 26, percentage = RoundedRatio 26 26, passed = True,
          results = replicate 26 \<lparr>isCorrect = JBool True, isMultiAnswer = True\<rparr>\<rparr>"
    by (simp add: gradeQuiz_def)
  then show ?thesis by (simp add: repeatedKeyQuestion_keys)
qed

section \<open>Grading: unanswered questions\<close>

lemma plainValue_propVal: "plainValue v \<Longrightarrow> plainValue (propVal v k)"
proof (cases v)
  case (JObj kvs)
  assume "plainValue v"
  with JObj have all: "\<forall>kv \<in> set kvs. plainValue (snd kv)" by simp
  show ?thesis
  proof (cases "map_of kvs k")
    case None
    with JObj show ?thesis by simp
  next
    case (Some a)
    then have "(k, a) \<in> set kvs" by (rule map_of_SomeD)
    with all have "plainValue (snd (k, a))" by blast
    with JObj Some show ?thesis by simp
  qed
qed simp_all

lemma plainValue_toStringOk: "plainValue v \<Longrightarrow> toStringOk v"
  by (induction v rule: toStringOk.induct) auto

lemma plainValue_entries: "plainValue v \<Longrightarrow> (k, t) \<in> set (objectEntries v) \<Longrightarrow> plainValue t"
  by (cases v) (auto dest: set_zip_rightD)

lemma plainValue_items: "plainValue v \<Longrightarrow> x \<in> set (arrayItems v) \<Longrightarrow> plainValue x"
  by (cases v) auto

lemma getOptionText_plain:
  assumes p: "plainValue (JObj kvs)"
  shows "\<exists>t. getOptionText rt (JObj kvs) (JStr k) = Inr t \<and> toStringOk t"
proof -
  let ?q = "JObj kvs"
  let ?o = "propVal ?q ''question_option''"
  have po: "plainValue ?o" using p by (rule plainValue_propVal)
  show ?thesis
  proof (cases "truthy ?o")
    case False
    then show ?thesis by (simp add: getOptionText_def)
  next
    case t: True
    show ?thesis
    proof (cases "isArray ?o")
      case True
      let ?P = "\<lambda>opt. truthy opt \<and> typeofObject opt \<and> strictEq (propVal opt ''option'') (JStr k)"
      show ?thesis
      proof (cases "find ?P (arrayItems ?o)")
        case None
        with t True show ?thesis by (simp add: getOptionText_def)
      next
        case (Some opt)
        then have "opt \<in> set (arrayItems ?o)" by (auto simp: find_Some_iff)
        with po have "plainValue opt" by (rule plainValue_items)
        then have "toStringOk (propVal opt ''option_text'')"
          by (rule plainValue_toStringOk [OF plainValue_propVal])
        with t True Some show ?thesis by (simp add: getOptionText_def)
      qed
    next
      case False
      have "toStringOk (propVal ?o (toLowerCase rt k))"
        using po by (rule plainValue_toStringOk [OF plainValue_propVal])
      with t False show ?thesis by (simp add: getOptionText_def)
    qed
  qed
qed

lemma getOptionText_array:
  assumes "isArray (propVal (JObj kvs) ''question_option'')"
  shows "\<exists>t. getOptionText rt (JObj kvs) v = Inr t"
  using assms by (simp add: getOptionText_def split: option.splits)

lemma mapE_all:
  "(\<And>x. x \<in> set xs \<Longrightarrow> \<exists>y. f x = Inr y \<and> P y) \<Longrightarrow> \<exists>ys. mapE f xs = Inr ys \<and> list_all P ys"
proof (induction xs)
  case Nil
  then show ?case by simp
next
  case (Cons x xs)
  from Cons.prems [of x] obtain y where y: "f x = Inr y" "P y" by auto
  from Cons.IH Cons.prems obtain ys where ys: "mapE f xs = Inr ys" "list_all P ys" by auto
  from y ys show ?case by simp
qed

lemma trackObjective_plain: "plainValue (JObj kvs) \<Longrightarrow> trackObjective (JObj kvs) = Inr ()"
  using plainValue_toStringOk [OF plainValue_propVal, of "JObj kvs" "''learning_objective''"]
  by (simp add: trackObjective_def del: plainValue.simps propVal.simps)

lemma gradeQuestion_unanswered:
  assumes v: "isValid (validateQuestion q i)" and p: "plainValue q" and u: "unanswered q ua"
  shows "\<exists>r. gradeQuestion rt q ua = Inr r \<and> \<not> truthy (isCorrect r)"
proof -
  from valid_object [OF v] obtain kvs where q: "q = JObj kvs" by blast
  have gp: "\<And>k. getProp q k = Inr (propVal q k)" by (simp add: q)
  from valid_answer [OF v] obtain s where s: "propVal q ''answer_option'' = JStr s" "s \<noteq> []"
    by blast
  obtain ks where ks: "getCorrectAnswers rt q = Inr ks" using getCorrectAnswers_valid [OF v] by blast
  define b where "b = (1 < length ks)"
  have b: "isMultiAnswerQuestion q = Inr b" unfolding b_def using ks by (rule isMultiAnswerQuestion_length)
  have tr: "trackObjective q = Inr ()" using p unfolding q by (rule trackObjective_plain)
  let ?t = "propVal q ''answer_option_text''"
  have pt: "plainValue ?t" using p by (rule plainValue_propVal)
  show ?thesis
  proof (cases b)
    case True
    with b have to: "truthy ?t" "typeofObject ?t" "\<not> typeofString ?t"
      by (auto simp: isMultiAnswerQuestion_def gp split: if_splits) (cases ?t; simp)+
    from u have sel: "userSelections ua = []"
      by (auto simp: unanswered_def userSelections_def)
    from True have "ks \<noteq> []" by (auto simp: b_def)
    then have j: "judgeAnswer rt q ua ks True = Inr (JBool False)"
      by (simp add: judgeAnswer_def sel)
    have "list_all (\<lambda>(key, text). toStringOk text) (objectEntries ?t)"
      using plainValue_entries [OF pt] plainValue_toStringOk by (auto simp: list_all_iff)
    then have e: "explanationStep rt q True = Inr ()"
      using to by (simp add: explanationStep_def gp)
    have "\<exists>ys. mapE (\<lambda>ans. getOptionText rt q (JStr ans)) ks = Inr ys \<and> list_all toStringOk ys"
      using getOptionText_plain [OF p [unfolded q]] unfolding q by (intro mapE_all) blast
    then obtain ys where ys: "mapE (\<lambda>ans. getOptionText rt q (JStr ans)) ks = Inr ys" "joinOk ys"
      by (auto simp: joinOk_def)
    have d: "displayStep rt q ua ks True = Inr ()"
    proof (cases "ua = JArr []")
      case True
      with u have "isArray (propVal q ''question_option'')" by (simp add: unanswered_def)
      from getOptionText_array [OF this [unfolded q]] obtain t where "getOptionText rt q (JArr []) = Inr t"
        unfolding q by blast
      with True ys show ?thesis by (simp add: displayStep_def)
    next
      case False
      with u have "ua = JUndefined \<or> ua = JStr []" by (simp add: unanswered_def)
      with ys show ?thesis by (auto simp: displayStep_def)
    qed
    show ?thesis using True by (simp add: gradeQuestion_def ks b j tr e d)
  next
    case False
    with u b have ua: "ua = JUndefined \<or> ua = JStr []" by (auto simp: unanswered_def)
    then have f: "\<not> truthy ua" by auto
    then have j: "judgeAnswer rt q ua ks False = Inr ua"
      by (simp add: judgeAnswer_def gp)
    have e: "explanationStep rt q False = Inr ()"
      by (simp add: explanationStep_def gp s)
    from getOptionText_plain [OF p [unfolded q], where k = s and rt = rt] obtain t where "getOptionText rt q (JStr s) = Inr t"
      unfolding q by blast
    then have d: "displayStep rt q ua ks False = Inr ()"
      using f by (simp add: displayStep_def gp s)
    show ?thesis using False f by (simp add: gradeQuestion_def ks b j tr e d)
  qed
qed

lemma gradeLoop_unanswered:
  "(\<And>k. k < length qs \<Longrightarrow> isValid (validateQuestion (qs ! k) (i + k)) \<and> plainValue (qs ! k) \<and>
       unanswered (qs ! k) (answerAt answers (i + k))) \<Longrightarrow>
   \<exists>res'. gradeLoop rt answers qs i (c, res) = Inr (c, res') \<and> length res' = length res + length qs \<and>
      (list_all (\<lambda>x. \<not> truthy (isCorrect x)) res \<longrightarrow> list_all (\<lambda>x. \<not> truthy (isCorrect x)) res')"
proof (induction qs arbitrary: i res)
  case Nil
  then show ?case by simp
next
  case (Cons q qs)
  from Cons.prems [of 0] have "isValid (validateQuestion q i)" "plainValue q" "unanswered q (answerAt answers i)"
    by simp_all
  from gradeQuestion_unanswered [OF this] obtain r where
    r: "gradeQuestion rt q (answerAt answers i) = Inr r" "\<not> truthy (isCorrect r)" by blast
  have "\<And>k. k < length qs \<Longrightarrow> isValid (validateQuestion (qs ! k) (Suc i + k)) \<and> plainValue (qs ! k) \<and>
       unanswered (qs ! k) (answerAt answers (Suc i + k))"
    using Cons.prems [of "Suc k" for k] by simp
  from Cons.IH [OF this, of "res @ [r]"] obtain res' where
    "gradeLoop rt answers qs (Suc i) (c, res @ [r]) = Inr (c, res')" "length res' = length (res @ [r]) + length qs"
    "list_all (\<lambda>x. \<not> truthy (isCorrect x)) (res @ [r]) \<longrightarrow> list_all (\<lambda>x. \<not> truthy (isCorrect x)) res'"
    by blast
  with r show ?case by simp
qed

text \<open>
  C4, as stated, fails: for a single-answer question an empty array is truthy, so the
  grading calls \<^verbatim>\<open>toLowerCase\<close> on it and raises a TypeError.
\<close>

theorem gradeQuiz_unanswered_counterexample:
  "isValid (validateQuestion singleQuestion 0) \<and>
   isMultiAnswerQuestion singleQuestion = Inr False \<and>
   gradeQuestion asciiRuntime singleQuestion (JArr []) = Inl TypeError \<and>
   gradeQuiz asciiRuntime [singleQuestion] [0 \<mapsto> JArr []] = Inl TypeError"
  by (simp add: validateQuestion_def gradeQuiz_def gradeQuestion_def eval_defs answerAt_def
      singleQuestion_def)

text \<open>
  C4, amended: for every question accepted by the validator and free of objects with an
  own \<^verbatim>\<open>toString\<close> property, grading it with no entry or with the empty string (single-
  or multi-answer), or with the empty array when it is a multi-answer question in the
  array form, returns without an error and does not mark it correct; and \<open>gradeQuiz\<close>
  returns, with score 0, on every sequence of such questions whose answers are all of
  these kinds.
\<close>

theorem gradeQuiz_unanswered:
  "(isValid (validateQuestion q i) \<and> plainValue q \<and> unanswered q ua \<longrightarrow>
      (\<exists>r. gradeQuestion rt q ua = Inr r \<and> \<not> truthy (isCorrect r))) \<and>
   ((\<forall>k < length qs. isValid (validateQuestion (qs ! k) k) \<and> plainValue (qs ! k) \<and>
        unanswered (qs ! k) (answerAt answers k)) \<longrightarrow>
      (\<exists>r. gradeQuiz rt qs answers = Inr r \<and> score r = 0 \<and> \<not> passed r \<and>
           total_q r = length qs \<and> list_all (\<lambda>x. \<not> truthy (isCorrect x)) (results r)))"
proof (intro conjI impI)
  assume "isValid (validateQuestion q i) \<and> plainValue q \<and> unanswered q ua"
  then show "\<exists>r. gradeQuestion rt q ua = Inr r \<and> \<not> truthy (isCorrect r)"
    using gradeQuestion_unanswered by blast
next
  assume a: "\<forall>k < length qs. isValid (validateQuestion (qs ! k) k) \<and> plainValue (qs ! k) \<and>
        unanswered (qs ! k) (answerAt answers k)"
  have "\<exists>res'. gradeLoop rt answers qs 0 (0, []) = Inr (0, res') \<and>
      length res' = length ([] :: question_result list) + length qs \<and>
      (list_all (\<lambda>x. \<not> truthy (isCorrect x)) [] \<longrightarrow> list_all (\<lambda>x. \<not> truthy (isCorrect x)) res')"
    using a gradeLoop_unanswered [where qs = qs and i = 0 and answers = answers and c = 0
        and res = "[]"]
    by simp
  then obtain res' where "gradeLoop rt answers qs 0 (0, []) = Inr (0, res')"
    "list_all (\<lambda>x. \<not> truthy (isCorrect x)) res'" by auto
  then show "\<exists>r. gradeQuiz rt qs answers = Inr r \<and> score r = 0 \<and> \<not> passed r \<and>
           total_q r = length qs \<and> list_all (\<lambda>x. \<not> truthy (isCorrect x)) (results r)"
    by (simp add: gradeQuiz_def)
qed

theorem gradeQuiz_unanswered_witness:
  "isValid (validateQuestion multiQuestion 0) \<and> plainValue multiQuestion \<and>
   unanswered multiQuestion (JArr []) \<and>
   gradeQuestion asciiRuntime multiQuestion (JArr []) =
     Inr \<lparr>isCorrect = JBool False, isMultiAnswer = True\<rparr> \<and>
   gradeQuiz asciiRuntime [singleQuestion, multiQuestion, singleQuestion] [1 \<mapsto> JArr [], 2 \<mapsto> JStr []] =
     Inr \<lparr>score = 0, total_q = 3, percentage = RoundedRatio 0 3, passed = False,
          results = [\<lparr>isCorrect = JUndefined, isMultiAnswer = False\<rparr>,
                     \<lparr>isCorrect = JBool False, isMultiAnswer = True\<rparr>,
                     \<lparr>isCorrect = JStr [], isMultiAnswer = False\<rparr>]\<rparr>"
proof -
  have v: "isValid (validateQuestion multiQuestion 0)"
    by (simp add: validateQuestion_def multiQuestion_def objectKeys_def)
  have p: "plainValue multiQuestion"
    by (simp add: multiQuestion_def optionEntry_def)
  have u: "unanswered multiQuestion (JArr [])"
    by (simp add: unanswered_def eval_defs multiQuestion_def)
  have g: "gradeQuestion asciiRuntime multiQuestion (JArr []) =
     Inr \<lparr>isCorrect = JBool False, isMultiAnswer = True\<rparr>"
    by (simp add: gradeQuestion_def eval_defs multiQuestion_def)
  have s: "gradeQuestion asciiRuntime singleQuestion (JStr []) =
     Inr \<lparr>isCorrect = JStr [], isMultiAnswer = False\<rparr>"
    by (simp add: gradeQuestion_def eval_defs singleQuestion_def)
  have q: "gradeQuiz asciiRuntime [singleQuestion, multiQuestion, singleQuestion]
       [1 \<mapsto> JArr [], 2 \<mapsto> JStr []] =
     Inr \<lparr>score = 0, total_q = 3, percentage = RoundedRatio 0 3, passed = False,
          results = [\<lparr>isCorrect = JUndefined, isMultiAnswer = False\<rparr>,
                     \<lparr>isCorrect = JBool False, isMultiAnswer = True\<rparr>,
                     \<lparr>isCorrect = JStr [], isMultiAnswer = False\<rparr>]\<rparr>"
    by (simp add: gradeQuiz_def answerAt_def g s gradeQuestion_single_unanswered)
  from gradeQuiz_unanswered [where q = multiQuestion and i = 0 and ua = "JArr []"
      and qs = "[]" and answers = Map.empty and rt = asciiRuntime] v p u g q
  show ?thesis by simp
qed

section \<open>Session state store: expiry\<close>

text \<open>
  C6, as stated, fails at the boundary: a snapshot exactly 24 hours old (so not more than
  24 hours old) is not returned; it is treated as expired and deleted.
\<close>

theorem loadQuizState_expiry_counterexample:
  "loadQuizState parseA (\<lambda>v. Inr NumNaN) (1000 + dayMs) storeA ''A'' = (JNull, Map.empty) \<and>
   \<not> ((1000 + dayMs) - 1000 > dayMs)"
  by (simp add: loadQuizState_def parseA_def storeA_def savedAt_def maxAge_def dayMs_def)

text \<open>
  C6, amended: \<open>loadQuizState\<close> returns null and leaves the store alone when the key has
  no entry. For an entry that parses to an object with a numeric timestamp it returns
  the parsed snapshot unchanged, and leaves the store alone, when \<open>now - timestamp\<close> is
  less than 24 hours; otherwise (24 hours or more) it returns null and deletes the
  entry.
\<close>

theorem loadQuizState_expiry:
  "(store (''quiz_'' @ quizName) = None \<longrightarrow>
      loadQuizState parse conv now store quizName = (JNull, store)) \<and>
   (store (''quiz_'' @ quizName) = Some saved \<and> saved \<noteq> [] \<and> parse saved = Some state \<and>
    propVal state ''timestamp'' = JNum t \<longrightarrow>
      loadQuizState parse conv now store quizName =
        (if now - t < 24 * 60 * 60 * 1000 then (state, store)
         else (JNull, store((''quiz_'' @ quizName) := None))))"
proof -
  have "getProp state ''timestamp'' = Inr (JNum t)" if "propVal state ''timestamp'' = JNum t"
    using that by (cases state) auto
  then show ?thesis
    by (auto simp: loadQuizState_def maxAge_def Let_def)
qed

theorem loadQuizState_expiry_witness:
  "storeA (''quiz_'' @ ''A'') = Some ''snapshot'' \<and> parseA ''snapshot'' = Some (savedAt 1000) \<and>
   propVal (savedAt 1000) ''timestamp'' = JNum 1000 \<and>
   loadQuizState parseA (\<lambda>v. Inr NumNaN) (1000 + dayMs + 1000) storeA ''A'' =
     (JNull, Map.empty) \<and>
   loadQuizState parseA (\<lambda>v. Inr NumNaN) (1000 + dayMs - 60000) storeA ''A'' =
     (savedAt 1000, storeA) \<and>
   loadQuizState parseA (\<lambda>v. Inr NumNaN) (1000 + dayMs) Map.empty ''A'' = (JNull, Map.empty)"
  using loadQuizState_expiry [of storeA "''A''" parseA "\<lambda>v. Inr NumNaN" "1000 + dayMs + 1000"
      "''snapshot''" "savedAt 1000" 1000]
    loadQuizState_expiry [of storeA "''A''" parseA "\<lambda>v. Inr NumNaN" "1000 + dayMs - 60000"
      "''snapshot''" "savedAt 1000" 1000]
    loadQuizState_expiry [of Map.empty "''A''" parseA "\<lambda>v. Inr NumNaN" "1000 + dayMs"
      "''snapshot''" "savedAt 1000" 1000]
  by (simp add: parseA_def storeA_def savedAt_def dayMs_def)

section \<open>Controller: the answers of an attempt\<close>

lemma answerShape_JStr [simp]: "answerShape (JStr s)"
  by (simp add: answerShape_def)

lemma answerShape_empty [simp]: "answerShape (JArr [])"
  by (simp add: answerShape_def)

lemma answerShape_items: "answerShape v \<Longrightarrow> distinct (arrayItems v) \<and> list_all typeofString (arrayItems v)"
  by (cases v) (auto simp: answerShape_def)

lemma answerShape_add:
  "distinct xs \<Longrightarrow> list_all typeofString xs \<Longrightarrow> JStr s \<notin> set xs \<Longrightarrow> answerShape (JArr (xs @ [JStr s]))"
  by (simp add: answerShape_def)

lemma answerShape_filter:
  "distinct xs \<Longrightarrow> list_all typeofString xs \<Longrightarrow> answerShape (JArr (filter P xs))"
  by (simp add: answerShape_def list_all_iff)

lemma selectOption_inv: "attemptInvariant qs app \<Longrightarrow> attemptInvariant qs (selectOption v app)"
  by (auto simp: attemptInvariant_def selectOption_def)

lemma selectMultiOption_inv:
  assumes "attemptInvariant qs app"
  shows "attemptInvariant qs (selectMultiOption v c app)"
proof -
  let ?i = "currentQuestionIndex app"
  let ?ua0 = "userAnswers app"
  let ?ua1 = "if \<not> truthy (answerAt ?ua0 ?i) then ?ua0(?i \<mapsto> JArr []) else ?ua0"
  let ?ua2 = "if \<not> isArray (answerAt ?ua1 ?i) then ?ua1(?i \<mapsto> JArr []) else ?ua1"
  let ?sel = "arrayItems (answerAt ?ua2 ?i)"
  from assms have i: "?i < length qs" and cq: "currentQuestions app = qs"
    and a0: "\<And>k v. ?ua0 k = Some v \<Longrightarrow> k < length qs \<and> answerShape v"
    by (auto simp: attemptInvariant_def)
  have reset: "k < length qs \<and> answerShape w"
    if "\<And>k v. m k = Some v \<Longrightarrow> k < length qs \<and> answerShape v" "(m(?i \<mapsto> JArr [])) k = Some w"
    for m :: "nat \<rightharpoonup> jsval" and k w
    using that i by (cases "k = ?i") auto
  have a1: "k < length qs \<and> answerShape w" if "?ua1 k = Some w" for k w
  proof (cases "truthy (answerAt ?ua0 ?i)")
    case True
    with that a0 show ?thesis by simp
  next
    case False
    with that reset [of ?ua0 k w] a0 show ?thesis by simp
  qed
  have a2: "k < length qs \<and> answerShape w" if "?ua2 k = Some w" for k w
  proof (cases "isArray (answerAt ?ua1 ?i)")
    case True
    with that a1 show ?thesis by simp
  next
    case False
    with that reset [of ?ua1 k w] a1 show ?thesis by simp
  qed
  have "\<exists>xs. ?ua2 ?i = Some (JArr xs)"
    by (cases "answerAt ?ua1 ?i") (auto simp: answerAt_def split: option.splits if_splits)
  then obtain xs where xs: "?ua2 ?i = Some (JArr xs)" by blast
  then have sel: "?sel = xs" by (simp add: answerAt_def)
  from a2 [OF xs] have shape: "distinct xs" "list_all typeofString xs"
    using answerShape_items [of "JArr xs"] by auto
  have r: "userAnswers (selectMultiOption v c app) =
      (if c then (if JStr v \<notin> set ?sel then ?ua2(?i \<mapsto> JArr (?sel @ [JStr v])) else ?ua2)
       else ?ua2(?i \<mapsto> JArr (filter (\<lambda>value. value \<noteq> JStr v) ?sel)))"
    by (simp add: selectMultiOption_def Let_def)
  have "\<And>k w. userAnswers (selectMultiOption v c app) k = Some w \<Longrightarrow> k < length qs \<and> answerShape w"
    unfolding r sel using a2 i shape answerShape_add [of xs v] answerShape_filter [of xs]
    by (auto split: if_splits)
  moreover have "currentQuestions (selectMultiOption v c app) = qs"
    "currentQuestionIndex (selectMultiOption v c app) = ?i"
    by (simp_all add: selectMultiOption_def Let_def cq)
  ultimately show ?thesis using i unfolding attemptInvariant_def by simp
qed

lemma navigation_inv:
  "attemptInvariant qs app \<Longrightarrow> attemptInvariant qs (previousQuestion app) \<and> attemptInvariant qs (nextQuestion app)"
  by (auto simp: attemptInvariant_def previousQuestion_def nextQuestion_def)

lemma perform_inv: "attemptInvariant qs app \<Longrightarrow> attemptInvariant qs (perform a app)"
  by (cases a) (simp_all add: selectOption_inv selectMultiOption_inv navigation_inv)

lemma run_inv: "attemptInvariant qs app \<Longrightarrow> attemptInvariant qs (run acts app)"
  by (induction acts arbitrary: app) (simp_all add: perform_inv)

text \<open>
  C8, as stated, fails: selecting and then deselecting the only option of a question
  leaves an entry that is the empty array.
\<close>

theorem answers_never_empty_counterexample:
  "userAnswers (run [SelectMultiOption ''A'' True, SelectMultiOption ''A'' False]
      (newAttempt [multiQuestion, singleQuestion])) 0 = Some (JArr [])"
  by (simp add: newAttempt_def selectMultiOption_def answerAt_def)

text \<open>
  C8, amended: in every state reached from a freshly started attempt on a non-empty
  question list by selecting, deselecting and navigating, the current index and every
  key of the answers are valid question indices, and every value of the answers is a
  string or an array of strings without repetition. Such an array may be empty: a
  multi-answer question from which every option was deselected keeps an empty-array
  entry.
\<close>

theorem answers_well_formed:
  assumes "qs \<noteq> []"
  shows "currentQuestions (run acts (newAttempt qs)) = qs \<and>
    currentQuestionIndex (run acts (newAttempt qs)) < length qs \<and>
    (\<forall>i v. userAnswers (run acts (newAttempt qs)) i = Some v \<longrightarrow>
       i < length qs \<and> answerShape v)"
proof -
  have "attemptInvariant qs (newAttempt qs)"
    using assms by (simp add: attemptInvariant_def newAttempt_def)
  then have "attemptInvariant qs (run acts (newAttempt qs))" by (rule run_inv)
  then show ?thesis by (simp add: attemptInvariant_def)
qed

theorem answers_well_formed_witness:
  "[multiQuestion, singleQuestion] \<noteq> [] \<and>
   userAnswers (run [SelectMultiOption ''A'' True, NextQuestion, SelectOption ''B'',
       NextQuestion, SelectMultiOption ''C'' True, SelectMultiOption ''D'' True,
       SelectMultiOption ''C'' False, PreviousQuestion, SelectMultiOption ''A'' False]
     (newAttempt [multiQuestion, singleQuestion])) =
     [1 \<mapsto> JArr [JStr ''D''], 0 \<mapsto> JArr []] \<and>
   answerShape (JArr []) \<and> answerShape (JArr [JStr ''D''])"
proof -
  let ?acts = "[SelectMultiOption ''A'' True, NextQuestion, SelectOption ''B'',
       NextQuestion, SelectMultiOption ''C'' True, SelectMultiOption ''D'' True,
       SelectMultiOption ''C'' False, PreviousQuestion, SelectMultiOption ''A'' False]"
  let ?qs = "[multiQuestion, singleQuestion]"
  have n: "?qs \<noteq> []" by simp
  have e: "userAnswers (run ?acts (newAttempt ?qs)) = [1 \<mapsto> JArr [JStr ''D''], 0 \<mapsto> JArr []]"
    by (simp add: newAttempt_def selectMultiOption_def selectOption_def nextQuestion_def
        previousQuestion_def answerAt_def)
  from answers_well_formed [OF n, of ?acts]
  have "answerShape (JArr []) \<and> answerShape (JArr [JStr ''D''])"
    unfolding e by (metis fun_upd_same fun_upd_other zero_neq_one)
  with n e show ?thesis by simp
qed

end
